theory Spec2Isabelle
  imports Main
begin

section \<open>Operation history (utils.py, class OperationHistory)\<close>

text \<open>
  One entry of the log is the dictionary built by \<open>add_operation\<close>; its keys are the
  fields of the record. The callers pass strings for the three texts, an integer row
  count, and a string or \<open>None\<close> for \<open>result\<close> and \<open>rollback_sql\<close>.
\<close>

record operation =
  timestamp :: string
  operation_type :: string
  sql :: string
  natural_query :: string
  affected_rows :: int
  result :: "string option"
  rollback_sql :: "string option"

text \<open>
  The object state: the list \<open>self.history\<close>, the cursor \<open>self.current_index\<close> (a Python
  integer, \<open>-1\<close> before the first entry) and the capacity \<open>self.max_history\<close>.
\<close>

record operation_history =
  history :: "operation list"
  current_index :: int
  max_history :: int

datatype py_exception = IndexError | AttributeError | TypeError

definition init :: "int \<Rightarrow> operation_history" where
  "init cap = \<lparr>history = [], current_index = - 1, max_history = cap\<rparr>"

text \<open>Python list access: \<open>xs[:k]\<close> and \<open>xs[i]\<close>, negative numbers counting from the end.\<close>

definition slice_to :: "'a list \<Rightarrow> int \<Rightarrow> 'a list" where
  "slice_to xs k = (if k < 0 then take (nat (int (length xs) + k)) xs else take (nat k) xs)"

definition item :: "'a list \<Rightarrow> int \<Rightarrow> py_exception + 'a" where
  "item xs i =
     (let j = (if i < 0 then int (length xs) + i else i)
      in if 0 \<le> j \<and> j < int (length xs) then Inr (xs ! nat j) else Inl IndexError)"

text \<open>
  \<open>add_operation\<close>. The time stamp is read from the clock in the source; here it is the
  argument \<open>now\<close>. The result is the new entry and the updated object.
\<close>

definition add_operation ::
  "string \<Rightarrow> string \<Rightarrow> string \<Rightarrow> string \<Rightarrow> int \<Rightarrow> string option \<Rightarrow> string option
     \<Rightarrow> operation_history \<Rightarrow> operation \<times> operation_history" where
  "add_operation now kind query nq rows res rb s =
     (let h1 = (if current_index s < int (length (history s)) - 1
                then slice_to (history s) (current_index s + 1) else history s);
          entry = \<lparr>timestamp = now, operation_type = kind, sql = query, natural_query = nq,
                    affected_rows = rows, result = res, rollback_sql = rb\<rparr>;
          h2 = h1 @ [entry];
          h3 = (if int (length h2) > max_history s then drop 1 h2 else h2)
      in (entry, s\<lparr>history := h3, current_index := int (length h3) - 1\<rparr>))"

definition can_undo :: "operation_history \<Rightarrow> bool" where
  "can_undo s = (current_index s \<ge> 0)"

definition can_redo :: "operation_history \<Rightarrow> bool" where
  "can_redo s = (current_index s < int (length (history s)) - 1)"

text \<open>
  \<open>get_previous_operation\<close> reads the entry at the cursor and then moves the cursor back;
  \<open>get_next_operation\<close> moves the cursor forward and then reads. A read out of range
  raises \<open>IndexError\<close>; the object is returned as it is at that moment.
\<close>

definition get_previous_operation ::
  "operation_history \<Rightarrow> (py_exception + operation option) \<times> operation_history" where
  "get_previous_operation s =
     (if \<not> can_undo s then (Inr None, s)
      else case item (history s) (current_index s) of
             Inl e \<Rightarrow> (Inl e, s)
           | Inr entry \<Rightarrow> (Inr (Some entry), s\<lparr>current_index := current_index s - 1\<rparr>))"

definition get_next_operation ::
  "operation_history \<Rightarrow> (py_exception + operation option) \<times> operation_history" where
  "get_next_operation s =
     (if \<not> can_redo s then (Inr None, s)
      else let s' = s\<lparr>current_index := current_index s + 1\<rparr>
           in case item (history s') (current_index s') of
                Inl e \<Rightarrow> (Inl e, s')
              | Inr entry \<Rightarrow> (Inr (Some entry), s'))"

definition get_current_operation :: "operation_history \<Rightarrow> operation option" where
  "get_current_operation s =
     (if current_index s < 0 \<or> current_index s \<ge> int (length (history s)) then None
      else Some (history s ! nat (current_index s)))"

definition clear_history :: "operation_history \<Rightarrow> operation_history" where
  "clear_history s = s\<lparr>history := [], current_index := - 1\<rparr>"

text \<open>Appending an entry that is already a record, and the two cursor moves as state changes.\<close>

definition record_entry :: "operation \<Rightarrow> operation_history \<Rightarrow> operation_history" where
  "record_entry e s =
     snd (add_operation (timestamp e) (operation_type e) (sql e) (natural_query e)
            (affected_rows e) (result e) (rollback_sql e) s)"

definition undo :: "operation_history \<Rightarrow> operation_history" where
  "undo s = snd (get_previous_operation s)"

definition redo :: "operation_history \<Rightarrow> operation_history" where
  "redo s = snd (get_next_operation s)"


text \<open>The range of the cursor: from \<open>-1\<close> to the last index.\<close>

definition cursor_ok :: "operation_history \<Rightarrow> bool" where
  "cursor_ok s = (- 1 \<le> current_index s \<and> current_index s \<le> int (length (history s)) - 1)"

text \<open>
  The states an object of capacity \<open>cap\<close> goes through when only \<open>add_operation\<close>, the two
  cursor moves and \<open>clear_history\<close> are called on it.
\<close>

inductive built :: "int \<Rightarrow> operation_history \<Rightarrow> bool" for cap :: int where
  start: "built cap (init cap)"
| added: "built cap s \<Longrightarrow> built cap (snd (add_operation now kind query nq rows res rb s))"
| undone: "built cap s \<Longrightarrow> built cap (snd (get_previous_operation s))"
| redone: "built cap s \<Longrightarrow> built cap (snd (get_next_operation s))"
| cleared: "built cap s \<Longrightarrow> built cap (clear_history s)"

text \<open>Three entries and a log holding them, for concrete runs.\<close>

definition entry_a :: operation where
  "entry_a = \<lparr>timestamp = ''2024-01-01 10:00:00'', operation_type = ''SELECT'',
               sql = ''SELECT * FROM t;'', natural_query = ''show t'', affected_rows = 3,
               result = Some ''3 rows'', rollback_sql = None\<rparr>"

definition entry_b :: operation where
  "entry_b = \<lparr>timestamp = ''2024-01-01 10:01:00'', operation_type = ''INSERT'',
               sql = ''INSERT INTO t VALUES (4);'', natural_query = ''add 4'', affected_rows = 1,
               result = Some ''1 row'', rollback_sql = Some ''DELETE FROM t WHERE id = 4;''\<rparr>"

definition entry_c :: operation where
  "entry_c = \<lparr>timestamp = ''2024-01-01 10:02:00'', operation_type = ''DELETE'',
               sql = ''DELETE FROM t WHERE id = 1;'', natural_query = ''remove 1'',
               affected_rows = 1, result = None, rollback_sql = None\<rparr>"

definition log_abc :: "int \<Rightarrow> int \<Rightarrow> operation_history" where
  "log_abc cursor cap = \<lparr>history = [entry_a, entry_b, entry_c], current_index = cursor,
                          max_history = cap\<rparr>"

section \<open>Persistence of the history (save_to_file, load_from_file)\<close>

text \<open>
  The values \<open>json.load\<close> builds. Numbers are integers here; a float takes the path of an
  integer with the same test against zero.
\<close>

datatype json = JNull | JBool bool | JNum int | JStr string | JArr "json list"
  | JObj "(string \<times> json) list"

text \<open>Python's truth value and \<open>len\<close> of such a value.\<close>

fun truthy :: "json \<Rightarrow> bool" where
  "truthy JNull = False"
| "truthy (JBool b) = b"
| "truthy (JNum n) = (n \<noteq> 0)"
| "truthy (JStr s) = (s \<noteq> [])"
| "truthy (JArr xs) = (xs \<noteq> [])"
| "truthy (JObj kvs) = (kvs \<noteq> [])"

fun py_len :: "json \<Rightarrow> py_exception + nat" where
  "py_len (JStr s) = Inr (length s)"
| "py_len (JArr xs) = Inr (length xs)"
| "py_len (JObj kvs) = Inr (length kvs)"
| "py_len JNull = Inl TypeError"
| "py_len (JBool b) = Inl TypeError"
| "py_len (JNum n) = Inl TypeError"

text \<open>
  What \<open>open\<close> finds under a file name: no file in an existing directory, no directory,
  something that cannot be opened (permissions, a directory of that name), or a file with
  a text. The text type is left open; \<open>json.dump\<close> and \<open>json.load\<close> belong to the Python
  library and are the parameters \<open>dumps\<close> and \<open>loads\<close>. \<open>loads\<close> gives \<open>None\<close> where
  \<open>json.load\<close> raises, and otherwise the document: an array of operation dictionaries,
  seen as the list of entries, or any other value.
\<close>

datatype 'text node = Absent | No_directory | Inaccessible | Holds 'text

datatype document = Entries "operation list" | Foreign json

text \<open>
  The object after \<open>load_from_file\<close>: a log as before, or an object whose \<open>history\<close>
  attribute holds a value that is not a list of entries, with its cursor and capacity.
\<close>

datatype loaded = Log operation_history | Malformed json int int

definition save_to_file ::
  "(operation list \<Rightarrow> 'text) \<Rightarrow> string \<Rightarrow> operation_history \<Rightarrow> (string \<Rightarrow> 'text node)
     \<Rightarrow> bool \<times> (string \<Rightarrow> 'text node)" where
  "save_to_file dumps filename s fs =
     (case fs filename of
        No_directory \<Rightarrow> (False, fs)
      | Inaccessible \<Rightarrow> (False, fs)
      | Absent \<Rightarrow> (True, fs(filename := Holds (dumps (history s))))
      | Holds old \<Rightarrow> (True, fs(filename := Holds (dumps (history s)))))"

text \<open>
  \<open>load_from_file\<close> assigns \<open>self.history\<close> as soon as \<open>json.load\<close> has returned, and
  computes the cursor afterwards: \<open>len(self.history) - 1 if self.history else -1\<close>. For a
  value that is true but has no length, \<open>len\<close> raises \<open>TypeError\<close>; the handler returns
  \<open>False\<close>, with the attribute already overwritten and the cursor as it was.
\<close>

definition load_from_file ::
  "('text \<Rightarrow> document option) \<Rightarrow> string \<Rightarrow> operation_history \<Rightarrow> (string \<Rightarrow> 'text node)
     \<Rightarrow> bool \<times> loaded" where
  "load_from_file loads filename s fs =
     (case fs filename of
        Absent \<Rightarrow> (False, Log s)
      | No_directory \<Rightarrow> (False, Log s)
      | Inaccessible \<Rightarrow> (False, Log s)
      | Holds text \<Rightarrow>
          (case loads text of
             None \<Rightarrow> (False, Log s)
           | Some (Entries h) \<Rightarrow>
               (True, Log (s\<lparr>history := h,
                             current_index := (if h \<noteq> [] then int (length h) - 1 else - 1)\<rparr>))
           | Some (Foreign j) \<Rightarrow>
               (if truthy j
                then (case py_len j of
                        Inl e \<Rightarrow> (False, Malformed j (current_index s) (max_history s))
                      | Inr n \<Rightarrow> (True, Malformed j (int n - 1) (max_history s)))
                else (True, Malformed j (- 1) (max_history s)))))"

text \<open>
  A disk without files, and a \<open>json.load\<close> for texts that are the entries themselves, for
  concrete runs.
\<close>

definition empty_disk :: "string \<Rightarrow> 'text node" where
  "empty_disk = (\<lambda>name. Absent)"

definition plain_loads :: "operation list \<Rightarrow> document option" where
  "plain_loads h = Some (Entries h)"


section \<open>Python strings and the regular expressions of the source\<close>

text \<open>
  A string is a list of characters with code points below 256. \<open>isspace\<close> is Python's
  \<open>str.isspace\<close> on that range, which is also what \<open>\s\<close> matches.
\<close>

definition isspace :: "char \<Rightarrow> bool" where
  "isspace c = (of_char c \<in> set [9, 10, 11, 12, 13, 28, 29, 30, 31, 32, 133, 160 :: nat])"

definition lstrip_chars :: "char list \<Rightarrow> string \<Rightarrow> string" where
  "lstrip_chars cs s = dropWhile (\<lambda>c. c \<in> set cs) s"

definition rstrip_chars :: "char list \<Rightarrow> string \<Rightarrow> string" where
  "rstrip_chars cs s = rev (dropWhile (\<lambda>c. c \<in> set cs) (rev s))"

definition strip_chars :: "char list \<Rightarrow> string \<Rightarrow> string" where
  "strip_chars cs s = rstrip_chars cs (lstrip_chars cs s)"

definition rstrip :: "string \<Rightarrow> string" where
  "rstrip s = rev (dropWhile isspace (rev s))"

definition strip :: "string \<Rightarrow> string" where
  "strip s = rstrip (dropWhile isspace s)"

definition endswith :: "string \<Rightarrow> string \<Rightarrow> bool" where
  "endswith s suf = (length suf \<le> length s \<and> drop (length s - length suf) s = suf)"


definition upper_char :: "char \<Rightarrow> char" where
  "upper_char c = (if 97 \<le> (of_char c :: nat) \<and> (of_char c :: nat) \<le> 122
                   then char_of (of_char c - 32 :: nat) else c)"


definition same_letter :: "char \<Rightarrow> char \<Rightarrow> bool" where
  "same_letter a b = (upper_char a = upper_char b)"

text \<open>
  \<open>match_at eq pat s\<close>: the literal \<open>pat\<close> matches at the start of \<open>s\<close> (characters compared
  by \<open>eq\<close>), leaving the rest. \<open>find_after eq pat s\<close>: the rest after the first place
  where \<open>pat\<close> matches.
\<close>

fun match_at :: "(char \<Rightarrow> char \<Rightarrow> bool) \<Rightarrow> string \<Rightarrow> string \<Rightarrow> string option" where
  "match_at eq [] s = Some s"
| "match_at eq (p # ps) [] = None"
| "match_at eq (p # ps) (c # cs) = (if eq p c then match_at eq ps cs else None)"

fun find_after :: "(char \<Rightarrow> char \<Rightarrow> bool) \<Rightarrow> string \<Rightarrow> string \<Rightarrow> string option" where
  "find_after eq pat [] = match_at eq pat []"
| "find_after eq pat (c # cs) =
     (case match_at eq pat (c # cs) of Some r \<Rightarrow> Some r | None \<Rightarrow> find_after eq pat cs)"

lemma match_at_length: "match_at eq pat s = Some r \<Longrightarrow> length s = length pat + length r"
  by (induction eq pat s rule: match_at.induct) (auto split: if_splits)

lemma find_after_length: "find_after eq pat s = Some r \<Longrightarrow> length r \<le> length s"
  by (induction eq pat s rule: find_after.induct)
     (auto split: option.splits dest: match_at_length)

text \<open>
  \<open>re.sub(opn .*? cls, '', s, flags=re.DOTALL)\<close> for literal delimiters: scanning from the
  left, where \<open>opn\<close> matches and a \<open>cls\<close> follows, everything up to the end of the first
  such \<open>cls\<close> is dropped and the scan goes on behind it; elsewhere the character stays.
\<close>

function re_sub_between :: "(char \<Rightarrow> char \<Rightarrow> bool) \<Rightarrow> string \<Rightarrow> string \<Rightarrow> string \<Rightarrow> string" where
  "re_sub_between eq [] cls s = s"
| "re_sub_between eq (p # ps) cls [] = []"
| "re_sub_between eq (p # ps) cls (c # cs) =
     (case match_at eq (p # ps) (c # cs) of
        None \<Rightarrow> c # re_sub_between eq (p # ps) cls cs
      | Some body \<Rightarrow>
          (case find_after eq cls body of
             None \<Rightarrow> c # re_sub_between eq (p # ps) cls cs
           | Some rest \<Rightarrow> re_sub_between eq (p # ps) cls rest))"
  by pat_completeness auto
termination
proof (relation "measure (\<lambda>(eq, opn, cls, s). length s)")
  show "wf (measure (\<lambda>(eq, opn, cls, s). length s))" by simp
next
  fix eq :: "char \<Rightarrow> char \<Rightarrow> bool" and p ps cls c cs
  show "((eq, p # ps, cls, cs), (eq, p # ps, cls, c # cs)) \<in> measure (\<lambda>(eq, opn, cls, s). length s)"
    by simp
next
  fix eq :: "char \<Rightarrow> char \<Rightarrow> bool" and p ps cls c cs body
  show "((eq, p # ps, cls, cs), (eq, p # ps, cls, c # cs)) \<in> measure (\<lambda>(eq, opn, cls, s). length s)"
    by simp
next
  fix eq :: "char \<Rightarrow> char \<Rightarrow> bool" and p ps cls c cs body rest
  assume m: "match_at eq (p # ps) (c # cs) = Some body" and f: "find_after eq cls body = Some rest"
  from match_at_length [OF m] find_after_length [OF f]
  show "((eq, p # ps, cls, rest), (eq, p # ps, cls, c # cs)) \<in> measure (\<lambda>(eq, opn, cls, s). length s)"
    by simp
qed

text \<open>
  \<open>re.sub(r'--.*?$', '', s, flags=re.MULTILINE)\<close>: from each \<open>--\<close> up to, and not
  including, the next line feed or the end of the string.
\<close>

function re_sub_line_comment :: "string \<Rightarrow> string" where
  "re_sub_line_comment [] = []"
| "re_sub_line_comment (c # cs) =
     (case match_at (=) ''--'' (c # cs) of
        None \<Rightarrow> c # re_sub_line_comment cs
      | Some body \<Rightarrow> re_sub_line_comment (dropWhile (\<lambda>x. x \<noteq> CHR 0x0A) body))"
  by pat_completeness auto
termination
proof (relation "measure length")
  show "wf (measure length)" by simp
next
  fix c :: char and cs
  show "(cs, c # cs) \<in> measure length" by simp
next
  fix c :: char and cs body
  assume m: "match_at (=) ''--'' (c # cs) = Some body"
  have "length (dropWhile (\<lambda>x. x \<noteq> CHR 0x0A) body) \<le> length body"
    by (rule length_dropWhile_le)
  with match_at_length [OF m]
  show "(dropWhile (\<lambda>x. x \<noteq> CHR 0x0A) body, c # cs) \<in> measure length" by simp
qed

section \<open>The SQL sanitizer (database.py, validate_sql)\<close>

definition validate_sql :: "string \<Rightarrow> string" where
  "validate_sql query =
     (let q1 = strip_chars [CHR 0x27, CHR 0x22] query;
          q2 = (if \<not> endswith (rstrip q1) '';'' then rstrip q1 @ '';'' else q1);
          q3 = re_sub_between (=) ''/*'' ''*/'' q2;
          q4 = re_sub_line_comment q3
      in q4)"

text \<open>\<open>occurs pat s\<close>: the literal \<open>pat\<close> occurs somewhere in \<open>s\<close>.\<close>

definition occurs :: "string \<Rightarrow> string \<Rightarrow> bool" where
  "occurs pat s = (find_after (=) pat s \<noteq> None)"

text \<open>
  \<open>has_block_comment s\<close>: somewhere in \<open>s\<close> a \<open>/*\<close> is followed, behind it, by a \<open>*/\<close>: the
  text holds a complete block comment.
\<close>

fun has_block_comment :: "string \<Rightarrow> bool" where
  "has_block_comment [] = False"
| "has_block_comment (c # cs) =
     (case match_at (=) ''/*'' (c # cs) of
        Some body \<Rightarrow> occurs ''*/'' body \<or> has_block_comment cs
      | None \<Rightarrow> has_block_comment cs)"

section \<open>The write-path translation (openai_handler.py, natural_to_modify_sql)\<close>

text \<open>
  \<open>_preprocess_thinking_tags\<close>: four substitutions with \<open>re.DOTALL | re.IGNORECASE\<close>; the
  letters of the tags are compared without regard to case.
\<close>

definition preprocess_thinking_tags :: "string \<Rightarrow> string" where
  "preprocess_thinking_tags content =
     (if content = [] then content
      else let c1 = re_sub_between same_letter ''<think>'' ''</think>'' content;
               c2 = re_sub_between same_letter ''<thinking>'' ''</thinking>'' c1;
               c3 = re_sub_between same_letter ''<thoughts>'' ''</thoughts>'' c2;
               c4 = re_sub_between same_letter ''[THINKING]'' ''[/THINKING]'' c3
           in c4)"

text \<open>
  \<open>re.sub(r'^```\s*json\s*', '', s, flags=re.IGNORECASE)\<close>: only at the start of the
  string. \<open>re.sub(r'```\s*$', '', s)\<close>: from the first fence that only white space
  follows, to the end.
\<close>

definition strip_leading_fence :: "string \<Rightarrow> string \<Rightarrow> string" where
  "strip_leading_fence lang s =
     (case match_at (=) ''```'' s of
        None \<Rightarrow> s
      | Some r \<Rightarrow>
          (case match_at same_letter lang (dropWhile isspace r) of
             None \<Rightarrow> s
           | Some r2 \<Rightarrow> dropWhile isspace r2))"

fun strip_trailing_fence :: "string \<Rightarrow> string" where
  "strip_trailing_fence [] = []"
| "strip_trailing_fence (c # cs) =
     (case match_at (=) ''```'' (c # cs) of
        None \<Rightarrow> c # strip_trailing_fence cs
      | Some r \<Rightarrow> if list_all isspace r then [] else c # strip_trailing_fence cs)"

text \<open>
  \<open>json.loads\<close> is the parameter \<open>loads\<close>, with \<open>None\<close> for \<open>JSONDecodeError\<close>; an object is
  the list of its members, each key once.
\<close>


fun dict_set :: "'k \<Rightarrow> 'v \<Rightarrow> ('k \<times> 'v) list \<Rightarrow> ('k \<times> 'v) list" where
  "dict_set k v [] = [(k, v)]"
| "dict_set k v ((k', v') # kvs) = (if k = k' then (k, v) # kvs else (k', v') # dict_set k v kvs)"

text \<open>
  What the request and \<open>_process_response\<close> leave: an exception of the request, no
  content, or the content string.
\<close>

datatype completion = Request_failed | No_content | Content string

definition reply_text :: "string \<Rightarrow> string" where
  "reply_text content =
     strip (strip_trailing_fence (strip_leading_fence ''json'' (preprocess_thinking_tags content)))"

text \<open>
  \<open>natural_to_modify_sql\<close> from the reply on. \<open>None\<close> is the source's \<open>return None\<close>, reached
  by the explicit checks and by both exception handlers. A parsed value that is not an
  object ends there as well: either a required field is not found in it, or reading
  \<open>result["sql"]\<close> raises \<open>TypeError\<close>; so does an \<open>sql\<close> member that is not a string, whose
  \<open>strip\<close> raises \<open>AttributeError\<close>.
\<close>

definition natural_to_modify_sql ::
  "(string \<Rightarrow> json option) \<Rightarrow> completion \<Rightarrow> (string \<times> json) list option" where
  "natural_to_modify_sql loads reply =
     (case reply of
        Request_failed \<Rightarrow> None
      | No_content \<Rightarrow> None
      | Content content \<Rightarrow>
          if content = [] then None
          else (case loads (reply_text content) of
                  None \<Rightarrow> None
                | Some (JObj members) \<Rightarrow>
                    (case find (\<lambda>field. field \<notin> set (map fst members)) [''operation_type'', ''sql''] of
                       Some field \<Rightarrow> None
                     | None \<Rightarrow>
                         (case map_of members ''sql'' of
                            Some (JStr q) \<Rightarrow>
                              (let q1 = strip_chars [CHR 0x27, CHR 0x22] q;
                                   q2 = (if \<not> endswith (rstrip q1) '';'' then rstrip q1 @ '';'' else q1)
                               in Some (dict_set ''sql'' (JStr q2) members))
                          | _ \<Rightarrow> None))
                | Some _ \<Rightarrow> None))"

text \<open>A toy \<open>loads\<close> that knows one document, for concrete runs.\<close>

definition loads_delete_only :: "string \<Rightarrow> json option" where
  \<open>loads_delete_only text =
     (if text = ''{"operation_type": "DELETE"}''
      then Some (JObj [(''operation_type'', JStr ''DELETE'')]) else None)\<close>

section \<open>The execution engine (database.py)\<close>

text \<open>
  The driver, the server and pandas are not part of the source. A connection is seen
  through the state the server has committed and the state this session sees
  (\<open>pending\<close>). The driver is a pair of parameters: what \<open>cursor.execute\<close> does to both
  states (a statement may be committed by the server on its own, as MySQL does with
  \<open>CREATE\<close>, \<open>ALTER\<close> and \<open>DROP\<close>), and whether \<open>commit\<close> raises. An error of the driver
  (\<open>mysql.connector.Error\<close>) carries its message and whether the connection is still up.
  \<open>pd.DataFrame(rows, columns=columns)\<close> is the parameter \<open>frame\<close>.
\<close>

datatype cell = Null | Integer int | Text string | Bytes string | Bytearray string

record reply =
  result_set :: "(string list \<times> cell list list) option"
  rowcount :: int

datatype mysql_error = Mysql_error string bool

fun connection_up :: "mysql_error \<Rightarrow> bool" where
  "connection_up (Mysql_error msg up) = up"

record 'db connection =
  alive :: bool
  committed :: 'db
  pending :: 'db

record 'db driver =
  run :: "string \<Rightarrow> 'db \<Rightarrow> 'db \<Rightarrow> (mysql_error \<times> 'db \<times> 'db) + ('db \<times> 'db \<times> reply)"
  commit_error :: "'db \<Rightarrow> mysql_error option"

record dataframe =
  columns :: "string list"
  data :: "cell list list"








text \<open>
  \<open>execute_query\<close>: the statement is sanitized and executed, the rows are fetched and
  handed with the column names to \<open>pd.DataFrame\<close>, whose result is returned. Nothing is
  committed or rolled back. An error of the driver gives \<open>None\<close>; without a connection
  object the attribute access raises.
\<close>

definition execute_query ::
  "'db driver \<Rightarrow> (string list \<Rightarrow> cell list list \<Rightarrow> 'frame) \<Rightarrow> string \<Rightarrow> 'db connection option
     \<Rightarrow> (py_exception + 'frame option) \<times> 'db connection option" where
  "execute_query drv frame query st =
     (case st of
        None \<Rightarrow> (Inl AttributeError, st)
      | Some conn \<Rightarrow>
          if \<not> alive conn then (Inr None, st)
          else (case run drv (validate_sql query) (committed conn) (pending conn) of
                  Inl (e, c', p') \<Rightarrow>
                    (Inr None, Some (conn\<lparr>alive := connection_up e, committed := c', pending := p'\<rparr>))
                | Inr (c', p', rep) \<Rightarrow>
                    (case result_set rep of
                       None \<Rightarrow> (Inr None, Some (conn\<lparr>committed := c', pending := p'\<rparr>))
                     | Some (cols, rws) \<Rightarrow>
                         (Inr (Some (frame cols rws)), Some (conn\<lparr>committed := c', pending := p'\<rparr>)))))"

text \<open>
  The sample rows of \<open>get_schema_info\<close>: a binary value becomes a text with its length,
  any other value but \<open>None\<close> its \<open>str\<close>. \<open>str_nat\<close> and \<open>str_int\<close> write a number in
  decimal.
\<close>

function str_nat :: "nat \<Rightarrow> string" where
  "str_nat n = (if n < 10 then [char_of (48 + n)] else str_nat (n div 10) @ [char_of (48 + n mod 10)])"
  by pat_completeness auto
termination
  by (relation "measure id") auto

definition str_int :: "int \<Rightarrow> string" where
  "str_int i = (if i < 0 then ''-'' @ str_nat (nat (- i)) else str_nat (nat i))"

fun sample_value :: "cell \<Rightarrow> string option" where
  "sample_value Null = None"
| "sample_value (Bytes b) = Some (''BINARY('' @ str_nat (length b) @ '' bytes)'')"
| "sample_value (Bytearray b) = Some (''BINARY('' @ str_nat (length b) @ '' bytes)'')"
| "sample_value (Integer i) = Some (str_int i)"
| "sample_value (Text s) = Some s"

fun sample_row_data ::
  "string list \<Rightarrow> cell list \<Rightarrow> nat \<Rightarrow> (string \<times> string option) list
     \<Rightarrow> py_exception + (string \<times> string option) list" where
  "sample_row_data column_names [] i row_data = Inr row_data"
| "sample_row_data column_names (v # vs) i row_data =
     (if i < length column_names
      then sample_row_data column_names vs (Suc i) (dict_set (column_names ! i) (sample_value v) row_data)
      else Inl IndexError)"

text \<open>
  A \<open>frame\<close> that stores the column names and the cells as they are given, and a driver
  that answers every statement with one row holding three bytes.
\<close>

definition keep_frame :: "string list \<Rightarrow> cell list list \<Rightarrow> dataframe" where
  "keep_frame cols rws = \<lparr>columns = cols, data = rws\<rparr>"

definition blob_driver :: "unit driver" where
  "blob_driver =
     \<lparr>run = (\<lambda>stmt c p. Inr (c, p, \<lparr>result_set = Some ([''payload''], [[Bytes ''abc'']]), rowcount = 1\<rparr>)),
      commit_error = (\<lambda>p. None)\<rparr>"






definition blob_session :: "unit connection" where
  "blob_session = \<lparr>alive = True, committed = (), pending = ()\<rparr>"

section \<open>Properties of the operation history\<close>

lemma operation_eta:
  "\<lparr>timestamp = timestamp e, operation_type = operation_type e, sql = sql e,
     natural_query = natural_query e, affected_rows = affected_rows e, result = result e,
     rollback_sql = rollback_sql e\<rparr> = (e :: operation)"
  by (cases e) simp

lemma record_entry_eq:
  "record_entry e s =
     (let h1 = (if current_index s < int (length (history s)) - 1
                then slice_to (history s) (current_index s + 1) else history s);
          h2 = h1 @ [e];
          h3 = (if int (length h2) > max_history s then drop 1 h2 else h2)
      in s\<lparr>history := h3, current_index := int (length h3) - 1\<rparr>)"
  by (simp add: record_entry_def add_operation_def Let_def operation_eta)

lemma undo_eq:
  "0 \<le> current_index s \<Longrightarrow> current_index s < int (length (history s)) \<Longrightarrow>
   undo s = s\<lparr>current_index := current_index s - 1\<rparr>"
  by (simp add: undo_def get_previous_operation_def can_undo_def item_def)

lemma item_in_range: "0 \<le> i \<Longrightarrow> i < int (length xs) \<Longrightarrow> item xs i = Inr (xs ! nat i)"
  by (simp add: item_def)

lemma truncation_scenario:
  "history (record_entry d (undo (undo (record_entry c (record_entry b (record_entry a (init 100))))))) = [a, d]
   \<and> current_index (record_entry d (undo (undo (record_entry c (record_entry b (record_entry a (init 100))))))) = 1
   \<and> \<not> can_redo (record_entry d (undo (undo (record_entry c (record_entry b (record_entry a (init 100)))))))"
proof -
  have s3: "record_entry c (record_entry b (record_entry a (init 100)))
            = \<lparr>history = [a, b, c], current_index = 2, max_history = 100\<rparr>"
    by (simp add: record_entry_eq init_def Let_def)
  have u2: "undo (undo \<lparr>history = [a, b, c], current_index = 2, max_history = 100\<rparr>)
            = \<lparr>history = [a, b, c], current_index = 0, max_history = 100\<rparr>"
    by (simp add: undo_eq)
  have s4: "record_entry d \<lparr>history = [a, b, c], current_index = 0, max_history = 100\<rparr>
            = \<lparr>history = [a, d], current_index = 1, max_history = 100\<rparr>"
    by (simp add: record_entry_eq Let_def slice_to_def)
  show ?thesis by (simp add: s3 u2 s4 can_redo_def)
qed

text \<open>
  The cursor of every state the operations produce lies between \<open>-1\<close> and the last index.
\<close>

lemma cursor_ok_init: "cursor_ok (init cap)"
  by (simp add: cursor_ok_def init_def)

lemma cursor_ok_add_operation: "cursor_ok (snd (add_operation now kind query nq rows res rb s))"
  by (simp add: cursor_ok_def add_operation_def Let_def)

lemma cursor_ok_get_previous_operation: "cursor_ok s \<Longrightarrow> cursor_ok (snd (get_previous_operation s))"
  by (auto simp: cursor_ok_def get_previous_operation_def can_undo_def split: sum.splits)

lemma cursor_ok_get_next_operation: "cursor_ok s \<Longrightarrow> cursor_ok (snd (get_next_operation s))"
  by (auto simp: cursor_ok_def get_next_operation_def can_redo_def Let_def split: sum.splits)

lemma cursor_ok_clear_history: "cursor_ok (clear_history s)"
  by (simp add: cursor_ok_def clear_history_def)

lemma cursor_ok_load_from_file:
  "cursor_ok s \<Longrightarrow> snd (load_from_file loads filename s fs) = Log s' \<Longrightarrow> cursor_ok s'"
  by (auto simp: cursor_ok_def load_from_file_def
           split: node.splits option.splits document.splits if_splits sum.splits)

text \<open>
  Such states keep the cursor in its range and, for a capacity of at least 1, the log
  within the capacity.
\<close>

lemma add_operation_length:
  "1 \<le> max_history s \<Longrightarrow> int (length (history s)) \<le> max_history s \<Longrightarrow>
   int (length (history (snd (add_operation now kind query nq rows res rb s)))) \<le> max_history s"
  by (auto simp: add_operation_def Let_def slice_to_def)

lemma get_previous_operation_keeps:
  "history (snd (get_previous_operation s)) = history s
   \<and> max_history (snd (get_previous_operation s)) = max_history s"
  by (auto simp: get_previous_operation_def split: sum.splits)

lemma get_next_operation_keeps:
  "history (snd (get_next_operation s)) = history s
   \<and> max_history (snd (get_next_operation s)) = max_history s"
  by (auto simp: get_next_operation_def Let_def split: sum.splits)

lemma built_invariant:
  assumes "built cap s" and "1 \<le> cap"
  shows "cursor_ok s \<and> max_history s = cap \<and> int (length (history s)) \<le> cap"
  using assms
proof (induction rule: built.induct)
  case start
  then show ?case by (simp add: cursor_ok_init) (simp add: init_def)
next
  case (added s now kind query nq rows res rb)
  then show ?case
    using add_operation_length [of s now kind query nq rows res rb]
    by (simp add: cursor_ok_add_operation) (simp add: add_operation_def Let_def)
next
  case (undone s)
  then show ?case
    using cursor_ok_get_previous_operation [of s] get_previous_operation_keeps [of s] by simp
next
  case (redone s)
  then show ?case
    using cursor_ok_get_next_operation [of s] get_next_operation_keeps [of s] by simp
next
  case (cleared s)
  then show ?case by (simp add: cursor_ok_clear_history) (simp add: clear_history_def)
qed

text \<open>
  C1. When the cursor is not at the tail, \<open>add_operation\<close> keeps the entries up to the
  cursor, appends the new entry behind them (the oldest entry leaving only if the capacity
  is exceeded), and no redo is possible afterwards. Appending A, B, C to a fresh log,
  undoing twice and appending D leaves exactly \<open>[A, D]\<close> with the cursor on D.
\<close>

theorem add_operation_truncates:
  fixes s :: operation_history and now kind query nq :: string and rows :: int
    and res rb :: "string option"
  assumes "- 1 \<le> current_index s" and "current_index s < int (length (history s)) - 1"
  defines "r \<equiv> add_operation now kind query nq rows res rb s"
  shows "(\<exists>k. k \<le> 1 \<and> history (snd r) = drop k (take (nat (current_index s + 1)) (history s) @ [fst r]))
       \<and> (current_index s + 2 \<le> max_history s \<longrightarrow>
            history (snd r) = take (nat (current_index s + 1)) (history s) @ [fst r]
            \<and> current_index (snd r) = current_index s + 1)
       \<and> \<not> can_redo (snd r)
       \<and> history (record_entry d (undo (undo (record_entry c (record_entry b (record_entry a (init 100))))))) = [a, d]
       \<and> current_index (record_entry d (undo (undo (record_entry c (record_entry b (record_entry a (init 100))))))) = 1"
proof -
  let ?kept = "take (nat (current_index s + 1)) (history s)"
  have sl: "slice_to (history s) (current_index s + 1) = ?kept"
    using assms(1) by (simp add: slice_to_def)
  have len: "int (length ?kept) = current_index s + 1"
    using assms(1,2) by simp
  have h: "history (snd r) = (if current_index s + 2 > max_history s then drop 1 (?kept @ [fst r]) else ?kept @ [fst r])"
    using assms(2) len by (simp add: r_def add_operation_def Let_def sl)
  have c: "current_index (snd r) = int (length (history (snd r))) - 1"
    by (simp add: r_def add_operation_def Let_def)
  have 1: "\<exists>k. k \<le> 1 \<and> history (snd r) = drop k (?kept @ [fst r])"
  proof (cases "current_index s + 2 > max_history s")
    case True
    then have "history (snd r) = drop 1 (?kept @ [fst r])" using h by simp
    then show ?thesis by blast
  next
    case False
    then have "history (snd r) = drop 0 (?kept @ [fst r])" using h by simp
    then show ?thesis by blast
  qed
  have 2: "current_index s + 2 \<le> max_history s \<longrightarrow>
            history (snd r) = ?kept @ [fst r] \<and> current_index (snd r) = current_index s + 1"
    using h c len by simp
  have 3: "\<not> can_redo (snd r)" using c by (simp add: can_redo_def)
  show ?thesis using 1 2 3 truncation_scenario [of d c b a] by blast
qed

theorem add_operation_truncates_witness:
  "history (snd (add_operation ''2024-01-01 10:03:00'' ''UPDATE'' ''UPDATE t SET v = 0;'' ''reset''
                   3 None None (log_abc 0 100)))
     = [entry_a, fst (add_operation ''2024-01-01 10:03:00'' ''UPDATE'' ''UPDATE t SET v = 0;''
                        ''reset'' 3 None None (log_abc 0 100))]
   \<and> \<not> can_redo (snd (add_operation ''2024-01-01 10:03:00'' ''UPDATE'' ''UPDATE t SET v = 0;''
                          ''reset'' 3 None None (log_abc 0 100)))"
proof -
  have h1: "- 1 \<le> current_index (log_abc 0 100)" by (simp add: log_abc_def)
  have h2: "current_index (log_abc 0 100) < int (length (history (log_abc 0 100))) - 1"
    by (simp add: log_abc_def)
  have h3: "current_index (log_abc 0 100) + 2 \<le> max_history (log_abc 0 100)"
    by (simp add: log_abc_def)
  have t: "take (nat (current_index (log_abc 0 100) + 1)) (history (log_abc 0 100)) = [entry_a]"
    by (simp add: log_abc_def)
  from add_operation_truncates [OF h1 h2, of "''2024-01-01 10:03:00''" "''UPDATE''"
      "''UPDATE t SET v = 0;''" "''reset''" 3 None None] h3 t
  show ?thesis by simp
qed

text \<open>
  C10. With the cursor on an entry, \<open>get_previous_operation\<close> followed by
  \<open>get_next_operation\<close> returns that entry both times and restores the object, the cursor
  included.
\<close>

theorem undo_redo_identity:
  assumes "0 \<le> current_index s" and "current_index s \<le> int (length (history s)) - 1"
  shows "get_previous_operation s
           = (Inr (Some (history s ! nat (current_index s))), s\<lparr>current_index := current_index s - 1\<rparr>)
         \<and> get_next_operation (snd (get_previous_operation s))
           = (Inr (Some (history s ! nat (current_index s))), s)
         \<and> current_index (snd (get_next_operation (snd (get_previous_operation s)))) = current_index s"
proof -
  have a: "item (history s) (current_index s) = Inr (history s ! nat (current_index s))"
    using assms by (simp add: item_in_range)
  have p: "get_previous_operation s
           = (Inr (Some (history s ! nat (current_index s))), s\<lparr>current_index := current_index s - 1\<rparr>)"
    using assms(1) a by (simp add: get_previous_operation_def can_undo_def)
  have n: "get_next_operation (s\<lparr>current_index := current_index s - 1\<rparr>)
           = (Inr (Some (history s ! nat (current_index s))), s)"
    using assms a by (simp add: get_next_operation_def can_redo_def Let_def)
  show ?thesis using p n by simp
qed

theorem undo_redo_identity_witness:
  "get_previous_operation (log_abc 1 100) = (Inr (Some entry_b), log_abc 0 100)
   \<and> get_next_operation (snd (get_previous_operation (log_abc 1 100)))
       = (Inr (Some entry_b), log_abc 1 100)"
proof -
  have h1: "0 \<le> current_index (log_abc 1 100)" by (simp add: log_abc_def)
  have h2: "current_index (log_abc 1 100) \<le> int (length (history (log_abc 1 100))) - 1"
    by (simp add: log_abc_def)
  have e: "history (log_abc 1 100) ! nat (current_index (log_abc 1 100)) = entry_b"
    by (simp add: log_abc_def)
  have d: "(log_abc 1 100)\<lparr>current_index := current_index (log_abc 1 100) - 1\<rparr> = log_abc 0 100"
    by (simp add: log_abc_def)
  have "get_previous_operation (log_abc 1 100) = (Inr (Some entry_b), log_abc 0 100)
        \<and> get_next_operation (snd (get_previous_operation (log_abc 1 100)))
            = (Inr (Some entry_b), log_abc 1 100)
        \<and> current_index (snd (get_next_operation (snd (get_previous_operation (log_abc 1 100)))))
            = current_index (log_abc 1 100)"
    using undo_redo_identity [OF h1 h2] unfolding e d .
  then show ?thesis by blast
qed

text \<open>
  C2. A log that is longer than its capacity stays longer: one call removes one entry. A
  log of three entries saved by an object of capacity 100 and loaded by an object of
  capacity 2 holds three entries after the next \<open>add_operation\<close>.
\<close>

theorem add_operation_over_capacity:
  "load_from_file plain_loads ''operation_history.json'' (init 2)
       (snd (save_to_file id ''operation_history.json'' (log_abc 2 100) empty_disk))
     = (True, Log (log_abc 2 2))
   \<and> max_history (snd (add_operation ''2024-01-01 10:03:00'' ''UPDATE'' ''UPDATE t SET v = 0;'' ''reset''
         3 None None (log_abc 2 2))) = 2
   \<and> length (history (snd (add_operation ''2024-01-01 10:03:00'' ''UPDATE'' ''UPDATE t SET v = 0;'' ''reset''
         3 None None (log_abc 2 2)))) = 3"
  by (simp add: log_abc_def load_from_file_def save_to_file_def empty_disk_def init_def
        plain_loads_def add_operation_def Let_def)

text \<open>
  C2, as it holds: with a capacity of at least 1 and a log within its capacity before the
  call, the log is within its capacity after \<open>add_operation\<close>; the stored sequence is the
  kept entries followed by the new one, without its first entry exactly when that
  sequence exceeds the capacity; the new entry is last and the cursor is on it. With
  capacity 2, appending A, B, C leaves \<open>[B, C]\<close> and the cursor at 1.
\<close>

theorem add_operation_bounded:
  fixes s :: operation_history and now kind query nq :: string and rows :: int
    and res rb :: "string option"
  assumes "1 \<le> max_history s" and "int (length (history s)) \<le> max_history s"
  defines "r \<equiv> add_operation now kind query nq rows res rb s"
  defines "h2 \<equiv> (if current_index s < int (length (history s)) - 1
                   then slice_to (history s) (current_index s + 1) else history s) @ [fst r]"
  shows "int (length (history (snd r))) \<le> max_history (snd r)
       \<and> max_history (snd r) = max_history s
       \<and> history (snd r) = (if int (length h2) > max_history s then drop 1 h2 else h2)
       \<and> history (snd r) \<noteq> [] \<and> last (history (snd r)) = fst r
       \<and> current_index (snd r) = int (length (history (snd r))) - 1
       \<and> item (history (snd r)) (current_index (snd r)) = Inr (fst r)
       \<and> history (record_entry c (record_entry b (record_entry a (init 2)))) = [b, c]
       \<and> current_index (record_entry c (record_entry b (record_entry a (init 2)))) = 1"
proof -
  let ?h1 = "if current_index s < int (length (history s)) - 1
             then slice_to (history s) (current_index s + 1) else history s"
  have l1: "length ?h1 \<le> length (history s)" by (auto simp add: slice_to_def)
  have h: "history (snd r) = (if int (length h2) > max_history s then drop 1 h2 else h2)"
    by (simp add: r_def h2_def add_operation_def Let_def)
  have m: "max_history (snd r) = max_history s"
    by (simp add: r_def add_operation_def Let_def)
  have c: "current_index (snd r) = int (length (history (snd r))) - 1"
    by (simp add: r_def add_operation_def Let_def)
  have l2: "length h2 = length ?h1 + 1" by (simp add: h2_def)
  have b: "int (length (history (snd r))) \<le> max_history s"
    using l1 l2 assms(2) h by (auto simp del: One_nat_def)
  have lst: "last h2 = fst r" by (simp add: h2_def)
  have ne: "history (snd r) \<noteq> [] \<and> last (history (snd r)) = fst r"
  proof (cases "int (length h2) > max_history s")
    case True
    then have "length h2 \<ge> 2" using assms(1) by linarith
    then obtain x y zs where "h2 = x # y # zs" by (cases h2; cases "tl h2") auto
    then show ?thesis using h True lst by simp
  next
    case False
    then show ?thesis using h lst l2 by auto
  qed
  have it: "item (history (snd r)) (current_index (snd r)) = Inr (fst r)"
  proof -
    from ne have "history (snd r) ! (length (history (snd r)) - 1) = fst r"
      by (metis last_conv_nth)
    moreover have "nat (int (length (history (snd r))) - 1) = length (history (snd r)) - 1"
      by simp
    moreover have "0 < length (history (snd r))" using ne by simp
    ultimately show ?thesis using c by (simp add: item_def)
  qed
  have sc: "record_entry c (record_entry b (record_entry a (init 2)))
            = \<lparr>history = [b, c], current_index = 1, max_history = 2\<rparr>"
    by (simp add: record_entry_eq init_def Let_def)
  show ?thesis using b m h ne c it sc by simp
qed


theorem add_operation_bounded_witness:
  "history (snd (add_operation ''2024-01-01 10:03:00'' ''UPDATE'' ''UPDATE t SET v = 0;'' ''reset''
                   3 None None (log_abc 2 3)))
     = [entry_b, entry_c, fst (add_operation ''2024-01-01 10:03:00'' ''UPDATE'' ''UPDATE t SET v = 0;''
                        ''reset'' 3 None None (log_abc 2 3))]
   \<and> int (length (history (snd (add_operation ''2024-01-01 10:03:00'' ''UPDATE'' ''UPDATE t SET v = 0;'' ''reset''
                   3 None None (log_abc 2 3))))) \<le> 3
   \<and> current_index (snd (add_operation ''2024-01-01 10:03:00'' ''UPDATE'' ''UPDATE t SET v = 0;'' ''reset''
                   3 None None (log_abc 2 3))) = 2"
proof -
  let ?r = "add_operation ''2024-01-01 10:03:00'' ''UPDATE'' ''UPDATE t SET v = 0;'' ''reset''
                   3 None None (log_abc 2 3)"
  have h1: "1 \<le> max_history (log_abc 2 3)" by (simp add: log_abc_def)
  have h2: "int (length (history (log_abc 2 3))) \<le> max_history (log_abc 2 3)"
    by (simp add: log_abc_def)
  have e: "(if current_index (log_abc 2 3) < int (length (history (log_abc 2 3))) - 1
            then slice_to (history (log_abc 2 3)) (current_index (log_abc 2 3) + 1)
            else history (log_abc 2 3)) @ [fst ?r] = [entry_a, entry_b, entry_c, fst ?r]"
    by (simp add: log_abc_def)
  have m: "max_history (log_abc 2 3) = 3" by (simp add: log_abc_def)
  note t = add_operation_bounded [OF h1 h2, of "''2024-01-01 10:03:00''" "''UPDATE''"
      "''UPDATE t SET v = 0;''" "''reset''" 3 None None, unfolded e m]
  have a: "history (snd ?r) = [entry_b, entry_c, fst ?r]" using t by simp
  have b: "int (length (history (snd ?r))) \<le> 3" using t by (simp add: m)
  have c: "current_index (snd ?r) = 2" using t a by simp
  show ?thesis using a b c by blast
qed

section \<open>Properties of saving and loading\<close>

text \<open>
  C3. The file holds the entries and not the cursor: a log saved with its cursor on the
  first of three entries comes back with the cursor on the last.
\<close>

theorem load_loses_cursor:
  "current_index (log_abc 0 100) = 0
   \<and> load_from_file plain_loads ''operation_history.json'' (log_abc 0 100)
        (snd (save_to_file id ''operation_history.json'' (log_abc 0 100) empty_disk))
       = (True, Log (log_abc 2 100))
   \<and> current_index (log_abc 2 100) = 2"
  by (simp add: log_abc_def load_from_file_def save_to_file_def empty_disk_def plain_loads_def)

text \<open>
  C3, as it holds: if \<open>json.load\<close> gives back the entries that \<open>json.dump\<close> wrote and the
  file can be written, then saving succeeds and loading the file into any object gives
  that object the saved entries in their order, with the cursor on the last index (\<open>-1\<close>
  for an empty log); a log whose cursor was at the tail is reproduced as a whole.
\<close>

theorem save_load_roundtrip:
  assumes "loads (dumps (history s)) = Some (Entries (history s))"
    and "fs filename \<noteq> No_directory" and "fs filename \<noteq> Inaccessible"
  shows "fst (save_to_file dumps filename s fs) = True
       \<and> load_from_file loads filename s0 (snd (save_to_file dumps filename s fs))
           = (True, Log (s0\<lparr>history := history s, current_index := int (length (history s)) - 1\<rparr>))
       \<and> (current_index s = int (length (history s)) - 1 \<longrightarrow>
            load_from_file loads filename s (snd (save_to_file dumps filename s fs)) = (True, Log s))"
proof -
  have sv: "save_to_file dumps filename s fs = (True, fs(filename := Holds (dumps (history s))))"
    using assms(2,3) by (cases "fs filename") (simp_all add: save_to_file_def)
  have ld: "\<And>t. load_from_file loads filename t (fs(filename := Holds (dumps (history s))))
           = (True, Log (t\<lparr>history := history s, current_index := int (length (history s)) - 1\<rparr>))"
    using assms(1) by (simp add: load_from_file_def)
  show ?thesis using sv ld by simp
qed

theorem save_load_roundtrip_witness:
  "load_from_file plain_loads ''operation_history.json'' (init 100)
       (snd (save_to_file id ''operation_history.json'' (log_abc 2 100) empty_disk))
     = (True, Log (log_abc 2 100))"
proof -
  have h1: "plain_loads (id (history (log_abc 2 100))) = Some (Entries (history (log_abc 2 100)))"
    by (simp add: plain_loads_def)
  have h2: "(empty_disk :: string \<Rightarrow> operation list node) ''operation_history.json'' \<noteq> No_directory"
    by (simp add: empty_disk_def)
  have h3: "(empty_disk :: string \<Rightarrow> operation list node) ''operation_history.json'' \<noteq> Inaccessible"
    by (simp add: empty_disk_def)
  have e: "(init 100)\<lparr>history := history (log_abc 2 100),
              current_index := int (length (history (log_abc 2 100))) - 1\<rparr> = log_abc 2 100"
    by (simp add: init_def log_abc_def)
  have "load_from_file plain_loads ''operation_history.json'' (init 100)
          (snd (save_to_file id ''operation_history.json'' (log_abc 2 100) empty_disk))
        = (True, Log ((init 100)\<lparr>history := history (log_abc 2 100),
              current_index := int (length (history (log_abc 2 100))) - 1\<rparr>))"
    using save_load_roundtrip [of plain_loads id "log_abc 2 100" empty_disk "''operation_history.json''" "init 100", OF h1 h2 h3]
    by (elim conjE)
  then show ?thesis unfolding e .
qed




section \<open>Properties of the sanitizer\<close>

subsection \<open>Occurrences of a literal\<close>















subsection \<open>Inputs without comment openers\<close>





lemma endswith_nonempty: "endswith s [c] \<Longrightarrow> s \<noteq> []"
  by (auto simp: endswith_def)






subsection \<open>What the line-comment pass leaves\<close>






text \<open>
  A trailing line comment takes the appended semicolon with it: the semicolon is added
  before the comments are removed.
\<close>

lemma validate_sql_trailing_comment: "validate_sql ''SELECT 1 -- note'' = ''SELECT 1 ''"
  by code_simp







section \<open>Properties of the write-path translation\<close>

text \<open>
  C7. When the cleaned reply parses to a JSON object that lacks \<open>operation_type\<close> or
  \<open>sql\<close>, \<open>natural_to_modify_sql\<close> returns \<open>None\<close>: no descriptor, partial or other.
\<close>

theorem missing_field_fails:
  assumes "loads (reply_text content) = Some (JObj members)"
    and "''operation_type'' \<notin> set (map fst members) \<or> ''sql'' \<notin> set (map fst members)"
  shows "natural_to_modify_sql loads (Content content) = None"
proof (cases "content = []")
  case True
  then show ?thesis by (simp add: natural_to_modify_sql_def)
next
  case False
  have "find (\<lambda>field. field \<notin> set (map fst members)) [''operation_type'', ''sql''] \<noteq> None"
    using assms(2) by auto
  then obtain f where "find (\<lambda>field. field \<notin> set (map fst members)) [''operation_type'', ''sql''] = Some f"
    by blast
  then show ?thesis using False assms(1) by (simp add: natural_to_modify_sql_def)
qed


theorem missing_field_fails_witness:
  \<open>natural_to_modify_sql loads_delete_only
      (Content ''<Think>why</THINK>``` JSON {"operation_type": "DELETE"} ```  '') = None\<close>
proof -
  have h1: \<open>loads_delete_only (reply_text ''<Think>why</THINK>``` JSON {"operation_type": "DELETE"} ```  '')
              = Some (JObj [(''operation_type'', JStr ''DELETE'')])\<close>
    by code_simp
  have h2: "''operation_type'' \<notin> set (map fst [(''operation_type'', JStr ''DELETE'')])
            \<or> ''sql'' \<notin> set (map fst [(''operation_type'', JStr ''DELETE'')])"
    by simp
  from missing_field_fails [of loads_delete_only
      \<open>''<Think>why</THINK>``` JSON {"operation_type": "DELETE"} ```  ''\<close>
      "[(''operation_type'', JStr ''DELETE'')]", OF h1 h2]
  show ?thesis .
qed

section \<open>Properties of the execution engine\<close>









text \<open>
  C9. \<open>execute_query\<close> renders nothing: with a \<open>DataFrame\<close> that stores the cells it is
  given, a binary cell is returned as the raw bytes the driver delivered.
\<close>

theorem execute_query_returns_raw_bytes:
  "fst (execute_query blob_driver keep_frame ''SELECT payload FROM files'' (Some blob_session))
     = Inr (Some \<lparr>columns = [''payload''], data = [[Bytes ''abc'']]\<rparr>)"
  by (simp add: execute_query_def blob_driver_def blob_session_def keep_frame_def)

lemma dict_set_fresh: "k \<notin> fst ` set kvs \<Longrightarrow> dict_set k v kvs = kvs @ [(k, v)]"
  by (induction kvs) auto

lemma sample_row_data_zip:
  assumes "distinct names"
  shows "i + length vs \<le> length names \<Longrightarrow> fst ` set acc = set (take i names) \<Longrightarrow>
         sample_row_data names vs i acc = Inr (acc @ zip (drop i names) (map sample_value vs))"
proof (induction vs arbitrary: i acc)
  case Nil
  show ?case by simp
next
  case (Cons v vs)
  have i: "i < length names" using Cons.prems(1) by simp
  have fresh: "names ! i \<notin> fst ` set acc"
    using Cons.prems(2) assms i by (metis id_take_nth_drop distinct_append distinct.simps(2) not_distinct_conv_prefix take_Suc_conv_app_nth)
  let ?acc = "acc @ [(names ! i, sample_value v)]"
  have a: "fst ` set ?acc = set (take (Suc i) names)"
    using Cons.prems(2) i by (simp add: take_Suc_conv_app_nth)
  have "sample_row_data names (v # vs) i acc = sample_row_data names vs (Suc i) ?acc"
    using i fresh by (simp add: dict_set_fresh)
  also have "\<dots> = Inr (?acc @ zip (drop (Suc i) names) (map sample_value vs))"
    using Cons.IH [of "Suc i" ?acc] Cons.prems(1) a by simp
  also have "\<dots> = Inr (acc @ zip (drop i names) (map sample_value (v # vs)))"
    using i by (simp add: Cons_nth_drop_Suc [symmetric])
  finally show ?case .
qed

text \<open>
  C9, as it holds: a successful \<open>execute_query\<close> hands the column names and the fetched
  rows, as the driver delivered them, to \<open>pd.DataFrame\<close> and returns what that builds; it
  has no rendering step of its own. The placeholder belongs to the sample rows of
  \<open>get_schema_info\<close>, where every value of a row is stored under its column name, a
  binary value of \<open>n\<close> bytes as the text \<open>BINARY(n bytes)\<close>.
\<close>

theorem binary_cells:
  "(alive conn \<and> run drv (validate_sql query) (committed conn) (pending conn) = Inr (c', p', rep)
      \<and> result_set rep = Some (cols, rws) \<longrightarrow>
      fst (execute_query drv frame query (Some conn)) = Inr (Some (frame cols rws)))
   \<and> (distinct names \<and> length row \<le> length names \<longrightarrow>
        sample_row_data names row 0 [] = Inr (zip names (map sample_value row)))
   \<and> sample_value (Bytes b) = Some (''BINARY('' @ str_nat (length b) @ '' bytes)'')
   \<and> sample_value (Bytearray b) = Some (''BINARY('' @ str_nat (length b) @ '' bytes)'')"
proof -
  have 1: "alive conn \<and> run drv (validate_sql query) (committed conn) (pending conn) = Inr (c', p', rep)
      \<and> result_set rep = Some (cols, rws) \<longrightarrow>
      fst (execute_query drv frame query (Some conn)) = Inr (Some (frame cols rws))"
    by (simp add: execute_query_def)
  have 2: "distinct names \<and> length row \<le> length names \<longrightarrow>
        sample_row_data names row 0 [] = Inr (zip names (map sample_value row))"
    using sample_row_data_zip [of names 0 row "[]"] by simp
  show ?thesis using 1 2 by simp
qed

theorem binary_cells_witness:
  "fst (execute_query blob_driver keep_frame ''SELECT 1'' (Some blob_session))
     = Inr (Some (keep_frame [''payload''] [[Bytes ''abc'']]))
   \<and> sample_row_data [''payload''] [Bytes ''abc''] 0 [] = Inr [(''payload'', Some ''BINARY(3 bytes)'')]"
proof -
  have h1: "alive blob_session
            \<and> run blob_driver (validate_sql ''SELECT 1'') (committed blob_session) (pending blob_session)
              = Inr ((), (), \<lparr>result_set = Some ([''payload''], [[Bytes ''abc'']]), rowcount = 1\<rparr>)
            \<and> result_set \<lparr>result_set = Some ([''payload''], [[Bytes ''abc'']]), rowcount = 1\<rparr>
              = Some ([''payload''], [[Bytes ''abc'']])"
    by (simp add: blob_session_def blob_driver_def)
  have h2: "distinct [''payload''] \<and> length [Bytes ''abc''] \<le> length [''payload'']" by simp
  have e: "zip [''payload''] (map sample_value [Bytes ''abc'']) = [(''payload'', Some ''BINARY(3 bytes)'')]"
    by code_simp
  from binary_cells [where conn = blob_session and drv = blob_driver and query = "''SELECT 1''"
      and c' = "()" and p' = "()"
      and rep = "\<lparr>result_set = Some ([''payload''], [[Bytes ''abc'']]), rowcount = 1\<rparr>"
      and cols = "[''payload'']" and rws = "[[Bytes ''abc'']]" and names = "[''payload'']"
      and row = "[Bytes ''abc'']" and frame = keep_frame] h1 h2 e
  show ?thesis by metis
qed

end
